theory Spec2Isabelle
  imports Complex_Main
begin

section \<open>JavaScript numbers\<close>

text \<open>
  Prices and amounts are JavaScript numbers. The model keeps the finite values as reals and
  \<open>NaN\<close> (what \<open>parseFloat\<close> gives on text that is not a number) as a value of its own:
  every comparison with \<open>NaN\<close> is false and \<open>NaN\<close> is falsy. Rounding of the
  floating-point arithmetic and the infinities are not modelled.
\<close>

datatype number = Num real | NaN

fun js_le :: "number \<Rightarrow> number \<Rightarrow> bool" where
  "js_le (Num a) (Num b) = (a \<le> b)"
| "js_le _ _ = False"

fun js_ge :: "number \<Rightarrow> number \<Rightarrow> bool" where
  "js_ge (Num a) (Num b) = (a \<ge> b)"
| "js_ge _ _ = False"

text \<open>Truthiness of a number: \<open>0\<close> and \<open>NaN\<close> are falsy.\<close>

fun truthy :: "number \<Rightarrow> bool" where
  "truthy (Num a) = (a \<noteq> 0)"
| "truthy NaN = False"

section \<open>jupiterService: token table, fallback price, single-token price cache\<close>

definition SOL :: string where "SOL = ''So11111111111111111111111111111111111111112''"
definition USDC :: string where "USDC = ''EPjFWdd5AufqSSqeM2qN1xzybapC8G4wEGGkZwyTDt1v''"
definition BONK :: string where "BONK = ''DezXAZ8z7PnrnRJjz3wXBoRgixCa6xjnB7YaB1pPB263''"
definition USDT :: string where "USDT = ''Es9vMFrzaCERmJfrF4H2FYD4KCoNkY11McCe8BenwNYB''"
definition mSOL :: string where "mSOL = ''mSoLzYCxHdYgdzU16g5QSh3i5K3z3KZK7ytfqcJm7So''"
definition JTO :: string where "JTO = ''jtojtomepa8beP8AuQc6eXt5FriJwfFMwQx2v2f9XCi''"

definition TOKENS :: "string list" where
  "TOKENS = [SOL, USDC, BONK, USDT, mSOL, JTO]"

text \<open>
  \<open>generateFallbackPrice(mint)\<close>. The argument \<open>r\<close> is the value that the call of
  \<open>Math.random()\<close> in the chosen branch returns, a number in \<open>[0, 1)\<close>; the default
  branch does not draw.
\<close>

definition generateFallbackPrice :: "string \<Rightarrow> real \<Rightarrow> real" where
  "generateFallbackPrice mint r =
     (if mint = SOL then 150 + (r * 10 - 5)
      else if mint = USDC \<or> mint = USDT then 1.0 + (r * 0.01 - 0.005)
      else if mint = BONK then 0.00001 + (r * 0.000001)
      else if mint = mSOL then 160 + (r * 10 - 5)
      else if mint = JTO then 2.5 + (r * 0.2 - 0.1)
      else 1.0)"

text \<open>
  The module-level \<open>tokenPriceCache\<close> is a map from mint to \<open>{price, timestamp}\<close>. The
  counter \<open>providerCalls\<close> is not in the source: it counts the \<open>axios.get\<close> requests issued
  to the quote provider, so that claims about the number of requests can be stated.
\<close>

record cache_entry =
  price :: number
  timestamp :: int

record price_state =
  tokenPriceCache :: "string \<rightharpoonup> cache_entry"
  providerCalls :: nat

text \<open>
  What one request to the quote provider does: the request, or the reading of
  \<open>response.data.data\<close>, throws; or it yields \<open>response.data.data[mint]?.price\<close>, which is
  \<open>undefined\<close> when the provider does not know the mint. The provider is a function of the
  number of requests made before and of the mint.
\<close>

datatype provider_outcome = ProviderThrows | ProviderReturns "number option"

type_synonym provider = "nat \<Rightarrow> string \<Rightarrow> provider_outcome"

text \<open>
  \<open>getTokenPrice(mint)\<close>; \<open>now\<close> is the value of \<open>Date.now()\<close> in milliseconds and
  \<open>r\<close> the draw of \<open>Math.random()\<close> should the fallback be taken. The result is the returned
  value (\<open>None\<close> for \<open>undefined\<close>) with the state after the call. The function catches every
  exception, so it has no error result.
\<close>

definition cacheFresh :: "price_state \<Rightarrow> string \<Rightarrow> int \<Rightarrow> bool" where
  "cacheFresh st mint now =
     (case tokenPriceCache st mint of
        None \<Rightarrow> False
      | Some cachedPrice \<Rightarrow> now - timestamp cachedPrice < 30000)"

definition getTokenPrice ::
  "provider \<Rightarrow> real \<Rightarrow> string \<Rightarrow> int \<Rightarrow> price_state \<Rightarrow> number option \<times> price_state" where
  "getTokenPrice axios_get r mint now st =
     (if cacheFresh st mint now
      then (map_option price (tokenPriceCache st mint), st)
      else
        (let st1 = st\<lparr>providerCalls := providerCalls st + 1\<rparr> in
         case axios_get (providerCalls st) mint of
           ProviderThrows \<Rightarrow> (Some (Num (generateFallbackPrice mint r)), st1)
         | ProviderReturns None \<Rightarrow> (None, st1)
         | ProviderReturns (Some p) \<Rightarrow>
             (if truthy p
              then (Some p, st1\<lparr>tokenPriceCache :=
                          (tokenPriceCache st1)(mint \<mapsto> \<lparr>price = p, timestamp = now\<rparr>)\<rparr>)
              else (Some p, st1))))"

section \<open>OrderContext: orders, the store and the engine state\<close>

datatype OrderType = LIMIT | STOP_LOSS | TAKE_PROFIT

datatype order_status = PENDING | EXECUTING | EXECUTED | FAILED | CANCELLED

text \<open>
  \<open>draft\<close> is the argument of \<open>createOrder\<close> as the order form builds it
  (\<open>Omit<Order, 'id' | 'walletAddress' | 'status' | 'createdAt'>\<close> with its optional fields
  absent); \<open>order\<close> is a document of the \<open>orders\<close> collection. The document id is kept
  beside the document, as the store does. A \<open>failureReason\<close> of \<open>null\<close> is \<open>None\<close>.
\<close>

record draft =
  inputToken :: string
  outputToken :: string
  inputAmount :: number
  orderType :: OrderType
  triggerPrice :: number

record order = draft +
  walletAddress :: string
  status :: order_status
  createdAt :: int
  executedAt :: "int option"
  transactionSignature :: "string option"
  failureReason :: "string option"

text \<open>
  What \<open>useWallet()\<close> provides: the public key (\<open>None\<close> for \<open>null\<close>) and whether the
  adapter offers \<open>signTransaction\<close> and \<open>signAllTransactions\<close>.
\<close>

record wallet =
  connected :: bool
  publicKey :: "string option"
  signTransaction :: bool
  signAllTransactions :: bool

text \<open>A thrown value: an \<open>Error\<close> with its message, or a value that is no \<open>Error\<close>.\<close>

datatype exn = Error string | Thrown

text \<open>The argument of \<open>executeSwap\<close> (the wallet capability apart) and what the call does.\<close>

record swap_request =
  swapInputToken :: string
  swapOutputToken :: string
  swapAmount :: number
  swapWalletAddress :: string

datatype swap_outcome = SwapSuccess string | SwapFailure string | SwapThrows exn

text \<open>
  The collaborators outside the engine: the pair price of the price context (a number, or
  an exception), the swap executor (a function of the number of swaps made before and of the
  request) and the clock.
\<close>

record env =
  getPriceForPair :: "string \<Rightarrow> string \<Rightarrow> exn + number"
  executeSwap :: "nat \<Rightarrow> swap_request \<Rightarrow> swap_outcome"
  dateNow :: int

text \<open>
  The state of the order provider. \<open>store\<close> is the \<open>orders\<close> collection of the document
  store, in insertion order. \<open>orders\<close>, \<open>isLoading\<close> and \<open>checkingOrders\<close> are the
  component's React state: \<open>orders\<close> is the list delivered by the last snapshot of the
  subscription. The operations are closures of one render of the component, in which
  \<open>orders\<close> and \<open>checkingOrders\<close> are constants: a write to the store, or a
  \<open>setCheckingOrders\<close>, changes what the next render sees and not what the running
  operation reads. So \<open>orders\<close> changes only by \<open>syncOrders\<close> below.
  Four logs are not in the source: \<open>executeCalls\<close> records every call of
  \<open>executeOrder\<close> with its argument, \<open>swapCalls\<close> every call of the swap executor with
  the order id it was made for, \<open>notifications\<close> every event given to
  \<open>websocketService.triggerOrderUpdate\<close>, and \<open>transitions\<close> every status write with the
  status the document had before.
  Each operation runs to its end before the next starts; a store write succeeds whenever the
  document exists.
\<close>

record engine =
  store :: "(string \<times> order) list"
  wallet :: wallet
  orders :: "(string \<times> order) list"
  isLoading :: bool
  checkingOrders :: bool
  executeCalls :: "string list"
  swapCalls :: "(string \<times> swap_request) list"
  notifications :: "(string \<times> order_status \<times> string option) list"
  transitions :: "(string \<times> order_status \<times> order_status) list"

subsection \<open>The document store\<close>

text \<open>The document that the collection holds under an id.\<close>

definition storedDoc :: "engine \<Rightarrow> string \<Rightarrow> order option" where
  "storedDoc s orderId = map_of (store s) orderId"

text \<open>
  The module imports \<open>collection, addDoc, query, where, getDocs, updateDoc, doc, onSnapshot,
  deleteDoc, Timestamp\<close> from the store library and declares no \<open>getDoc\<close>: the identifier
  that \<open>executeOrder\<close> calls is unbound, and its evaluation throws a \<open>ReferenceError\<close>
  (an \<open>Error\<close>), whatever the store holds. The result type is the one the call site
  expects: an exception, or the snapshot of the document (\<open>None\<close> when it does not exist).
\<close>

definition referenceError :: exn where
  "referenceError = Error ''getDoc is not defined''"

definition getDoc :: "engine \<Rightarrow> string \<Rightarrow> exn + order option" where
  "getDoc s orderId = Inl referenceError"

definition notFound :: string where
  "notFound = ''No document to update''"

text \<open>The collection after the fields of document \<open>orderId\<close> have been set by \<open>f\<close>.\<close>

definition setFields ::
  "string \<Rightarrow> (order \<Rightarrow> order) \<Rightarrow> (string \<times> order) list \<Rightarrow> (string \<times> order) list" where
  "setFields orderId f docs = map (\<lambda>(k, v). if k = orderId then (k, f v) else (k, v)) docs"

text \<open>
  \<open>updateDoc(doc(db, 'orders', orderId), fields)\<close>: rejects when the document does not
  exist, and otherwise applies the field update \<open>f\<close>. The first component of the result is the
  exception, if any.
\<close>

definition updateDoc :: "string \<Rightarrow> (order \<Rightarrow> order) \<Rightarrow> engine \<Rightarrow> exn option \<times> engine" where
  "updateDoc orderId f s =
     (case storedDoc s orderId of
        None \<Rightarrow> (Some (Error notFound), s)
      | Some d \<Rightarrow>
          (None, s\<lparr>store := setFields orderId f (store s),
                    transitions := transitions s @ [(orderId, status d, status (f d))]\<rparr>))"

text \<open>\<open>addDoc(collection(db, 'orders'), data)\<close>; \<open>docId\<close> is the id the store assigns.\<close>

definition addDoc :: "string \<Rightarrow> order \<Rightarrow> engine \<Rightarrow> engine" where
  "addDoc docId d s = s\<lparr>store := store s @ [(docId, d)]\<rparr>"

definition triggerOrderUpdate :: "string \<times> order_status \<times> string option \<Rightarrow> engine \<Rightarrow> engine" where
  "triggerOrderUpdate ev s = s\<lparr>notifications := notifications s @ [ev]\<rparr>"

text \<open>
  The snapshot listener of the subscription (\<open>onSnapshot\<close> with
  \<open>where('walletAddress', '==', walletAddress)\<close>, then \<open>setOrders\<close>): without a public
  key there is no subscription. The scan reads only the id, the status, the tokens, the kind
  and the trigger price of a listed order.
\<close>

definition syncOrders :: "engine \<Rightarrow> engine" where
  "syncOrders s =
     (case publicKey (wallet s) of
        None \<Rightarrow> s
      | Some pk \<Rightarrow> s\<lparr>orders := filter (\<lambda>(k, d). walletAddress d = pk) (store s)\<rparr>)"

subsection \<open>Trigger decision\<close>

text \<open>
  The \<open>switch (order.orderType)\<close> of \<open>checkOrderTriggers\<close> and the one of
  \<open>createOrder\<close>; the two are written out separately in the source, and so here.
\<close>

fun shouldExecute :: "OrderType \<Rightarrow> number \<Rightarrow> number \<Rightarrow> bool" where
  "shouldExecute LIMIT trigger currentPrice = js_le currentPrice trigger"
| "shouldExecute STOP_LOSS trigger currentPrice = js_le currentPrice trigger"
| "shouldExecute TAKE_PROFIT trigger currentPrice = js_ge currentPrice trigger"

fun shouldExecuteOnCreate :: "OrderType \<Rightarrow> number \<Rightarrow> number \<Rightarrow> bool" where
  "shouldExecuteOnCreate LIMIT trigger currentPrice = js_le currentPrice trigger"
| "shouldExecuteOnCreate STOP_LOSS trigger currentPrice = js_le currentPrice trigger"
| "shouldExecuteOnCreate TAKE_PROFIT trigger currentPrice = js_ge currentPrice trigger"

subsection \<open>executeOrder\<close>

fun errorMessage :: "exn \<Rightarrow> string" where
  "errorMessage (Error m) = m"
| "errorMessage Thrown = ''Unknown error''"

text \<open>
  The body of the \<open>try\<close> after the swap executor has been called with outcome \<open>result\<close>,
  and the \<open>catch\<close> block. Each returns the exception that leaves it, if any.
\<close>

definition executeOrder_try :: "env \<Rightarrow> string \<Rightarrow> swap_outcome \<Rightarrow> engine \<Rightarrow> exn option \<times> engine" where
  "executeOrder_try e orderId result s =
     (case result of
        SwapThrows x \<Rightarrow> (Some x, s)
      | SwapSuccess signature \<Rightarrow>
          (case updateDoc orderId
                  (\<lambda>d. d\<lparr>status := EXECUTED, executedAt := Some (dateNow e),
                          transactionSignature := Some signature\<rparr>) s of
             (Some x, s1) \<Rightarrow> (Some x, s1)
           | (None, s1) \<Rightarrow> (None, triggerOrderUpdate (orderId, EXECUTED, Some signature) s1))
      | SwapFailure err \<Rightarrow>
          (case updateDoc orderId (\<lambda>d. d\<lparr>status := FAILED, failureReason := Some err\<rparr>) s of
             (Some x, s1) \<Rightarrow> (Some x, s1)
           | (None, s1) \<Rightarrow> (None, triggerOrderUpdate (orderId, FAILED, None) s1)))"

definition executeOrder_catch :: "string \<Rightarrow> exn \<Rightarrow> engine \<Rightarrow> exn option \<times> engine" where
  "executeOrder_catch orderId error s =
     (case updateDoc orderId
             (\<lambda>d. d\<lparr>status := FAILED, failureReason := Some (errorMessage error)\<rparr>) s of
        (Some x, s1) \<Rightarrow> (Some x, s1)
      | (None, s1) \<Rightarrow> (None, triggerOrderUpdate (orderId, FAILED, None) s1))"

text \<open>The request that \<open>executeOrder\<close> builds from the document it has read.\<close>

definition swapRequest :: "order \<Rightarrow> string \<Rightarrow> swap_request" where
  "swapRequest orderData pk =
     \<lparr>swapInputToken = inputToken orderData,
      swapOutputToken = outputToken orderData,
      swapAmount = inputAmount orderData,
      swapWalletAddress = pk\<rparr>"

text \<open>
  \<open>executeOrder(orderId)\<close>. The call is logged first. After the guard on the wallet the
  function evaluates \<open>getDoc(orderRef)\<close>, outside any \<open>try\<close>: the exception of that call
  leaves the function. The branches after it are written as the source has them.
\<close>

definition executeOrder :: "env \<Rightarrow> string \<Rightarrow> engine \<Rightarrow> exn option \<times> engine" where
  "executeOrder e orderId s0 =
     (let s = s0\<lparr>executeCalls := executeCalls s0 @ [orderId]\<rparr> in
      case publicKey (wallet s) of
        None \<Rightarrow> (None, s)
      | Some pk \<Rightarrow>
          if \<not> signTransaction (wallet s) \<or> \<not> signAllTransactions (wallet s) then (None, s)
          else
            (case getDoc s orderId of
               Inl x \<Rightarrow> (Some x, s)
             | Inr None \<Rightarrow> (None, s)
             | Inr (Some orderData) \<Rightarrow>
                 (case updateDoc orderId (\<lambda>d. d\<lparr>status := EXECUTING\<rparr>) s of
                    (Some x, s1) \<Rightarrow> (Some x, s1)
                  | (None, s1) \<Rightarrow>
                      (let s2 = triggerOrderUpdate (orderId, EXECUTING, None) s1;
                           req = swapRequest orderData pk;
                           result = executeSwap e (length (swapCalls s2)) req;
                           s3 = s2\<lparr>swapCalls := swapCalls s2 @ [(orderId, req)]\<rparr>
                       in case executeOrder_try e orderId result s3 of
                            (None, s4) \<Rightarrow> (None, s4)
                          | (Some error, s4) \<Rightarrow> executeOrder_catch orderId error s4))))"

subsection \<open>checkOrderTriggers\<close>

text \<open>
  One turn of the loop over \<open>pendingOrders\<close>: the \<open>catch\<close> of the turn swallows the
  exception of the price lookup and the one of \<open>executeOrder\<close>, and keeps what the turn
  has done to the state before.
\<close>

definition checkTrigger :: "env \<Rightarrow> string \<times> order \<Rightarrow> engine \<Rightarrow> engine" where
  "checkTrigger e entry s =
     (case getPriceForPair e (inputToken (snd entry)) (outputToken (snd entry)) of
        Inl x \<Rightarrow> s
      | Inr currentPrice \<Rightarrow>
          if shouldExecute (orderType (snd entry)) (triggerPrice (snd entry)) currentPrice
             \<and> fst entry \<noteq> []
          then snd (executeOrder e (fst entry) s)
          else s)"

fun scanOrders :: "env \<Rightarrow> (string \<times> order) list \<Rightarrow> engine \<Rightarrow> engine" where
  "scanOrders e [] s = s"
| "scanOrders e (entry # rest) s = scanOrders e rest (checkTrigger e entry s)"

definition pendingOrders :: "engine \<Rightarrow> (string \<times> order) list" where
  "pendingOrders s = filter (\<lambda>entry. status (snd entry) = PENDING) (orders s)"

definition checkOrderTriggers :: "env \<Rightarrow> engine \<Rightarrow> engine" where
  "checkOrderTriggers e s =
     (if checkingOrders s then s
      else (scanOrders e (pendingOrders s) (s\<lparr>checkingOrders := True\<rparr>))\<lparr>checkingOrders := False\<rparr>)"

subsection \<open>createOrder, cancelOrder, retryOrder\<close>

definition createOrder :: "env \<Rightarrow> string \<Rightarrow> draft \<Rightarrow> engine \<Rightarrow> engine" where
  "createOrder e docId orderData s =
     (case publicKey (wallet s) of
        None \<Rightarrow> s
      | Some pk \<Rightarrow>
          (let s1 = addDoc docId
                      (draft.extend orderData
                         (order.fields pk PENDING (dateNow e) None None None))
                      (s\<lparr>isLoading := True\<rparr>)
           in (case getPriceForPair e (inputToken orderData) (outputToken orderData) of
                 Inl x \<Rightarrow> s1
               | Inr currentPrice \<Rightarrow>
                   if shouldExecuteOnCreate (orderType orderData) (triggerPrice orderData)
                        currentPrice
                   then snd (executeOrder e docId s1)
                   else s1)\<lparr>isLoading := False\<rparr>))"

definition cancelOrder :: "string \<Rightarrow> engine \<Rightarrow> engine" where
  "cancelOrder orderId s =
     (case updateDoc orderId (\<lambda>d. d\<lparr>status := CANCELLED\<rparr>) (s\<lparr>isLoading := True\<rparr>) of
        (Some x, s1) \<Rightarrow> s1\<lparr>isLoading := False\<rparr>
      | (None, s1) \<Rightarrow> (triggerOrderUpdate (orderId, CANCELLED, None) s1)\<lparr>isLoading := False\<rparr>)"

text \<open>
  The \<open>checkOrderTriggers\<close> that \<open>retryOrder\<close> calls is the closure of the same render: it
  filters the \<open>orders\<close> that were listed when retry was invoked.
\<close>

definition retryOrder :: "env \<Rightarrow> string \<Rightarrow> engine \<Rightarrow> engine" where
  "retryOrder e orderId s =
     (case updateDoc orderId (\<lambda>d. d\<lparr>status := PENDING, failureReason := None\<rparr>)
             (s\<lparr>isLoading := True\<rparr>) of
        (Some x, s1) \<Rightarrow> s1\<lparr>isLoading := False\<rparr>
      | (None, s1) \<Rightarrow>
          (checkOrderTriggers e (triggerOrderUpdate (orderId, PENDING, None) s1))
            \<lparr>isLoading := False\<rparr>)"

subsection \<open>OrderForm.handleSubmit\<close>

text \<open>
  The fields of the order form are text. \<open>parseFloat\<close> is the JavaScript function, a
  parameter of the model.
\<close>

record order_form =
  formInputToken :: string
  formOutputToken :: string
  formInputAmount :: string
  formOrderType :: OrderType
  formTriggerPrice :: string

definition handleSubmit ::
  "(string \<Rightarrow> number) \<Rightarrow> env \<Rightarrow> string \<Rightarrow> order_form \<Rightarrow> engine \<Rightarrow> engine" where
  "handleSubmit parseFloat e docId form s =
     (if \<not> connected (wallet s) then s
      else if formInputAmount form = [] \<or> js_le (parseFloat (formInputAmount form)) (Num 0)
      then s
      else if formTriggerPrice form = [] \<or> js_le (parseFloat (formTriggerPrice form)) (Num 0)
      then s
      else createOrder e docId
             \<lparr>inputToken = formInputToken form,
              outputToken = formOutputToken form,
              inputAmount = parseFloat (formInputAmount form),
              orderType = formOrderType form,
              triggerPrice = parseFloat (formTriggerPrice form)\<rparr> s)"

subsection \<open>Sequences of operations\<close>

datatype event =
    Sync
  | Scan
  | Execute string
  | Create string draft
  | Cancel string
  | Retry string

fun step :: "env \<Rightarrow> event \<Rightarrow> engine \<Rightarrow> engine" where
  "step e Sync s = syncOrders s"
| "step e Scan s = checkOrderTriggers e s"
| "step e (Execute orderId) s = snd (executeOrder e orderId s)"
| "step e (Create docId orderData) s = createOrder e docId orderData s"
| "step e (Cancel orderId) s = cancelOrder orderId s"
| "step e (Retry orderId) s = retryOrder e orderId s"

fun run :: "(env \<times> event) list \<Rightarrow> engine \<Rightarrow> engine" where
  "run [] s = s"
| "run ((e, ev) # rest) s = run rest (step e ev s)"

section \<open>Notions used in the statements\<close>


text \<open>The guard at the head of \<open>executeOrder\<close> passes for the public key \<open>pk\<close>.\<close>

definition walletReady :: "engine \<Rightarrow> string \<Rightarrow> bool" where
  "walletReady s pk =
     (publicKey (wallet s) = Some pk \<and> signTransaction (wallet s) \<and> signAllTransactions (wallet s))"

definition statusOf :: "engine \<Rightarrow> string \<Rightarrow> order_status option" where
  "statusOf s orderId = map_option status (storedDoc s orderId)"

text \<open>
  What an operation that leads from \<open>s\<close> to \<open>s'\<close> has added to the logs: its calls of
  \<open>executeOrder\<close>, its calls of the swap executor and its status writes.
\<close>

definition newExecutes :: "engine \<Rightarrow> engine \<Rightarrow> string list" where
  "newExecutes s s' = drop (length (executeCalls s)) (executeCalls s')"

definition newSwaps :: "engine \<Rightarrow> engine \<Rightarrow> (string \<times> swap_request) list" where
  "newSwaps s s' = drop (length (swapCalls s)) (swapCalls s')"

definition newTransitions :: "engine \<Rightarrow> engine \<Rightarrow> (string \<times> order_status \<times> order_status) list" where
  "newTransitions s s' = drop (length (transitions s)) (transitions s')"

text \<open>The ids that the listing \<open>orders\<close> shows as PENDING.\<close>

definition listedPending :: "engine \<Rightarrow> string set" where
  "listedPending s = {i. \<exists>d. (i, d) \<in> set (orders s) \<and> status d = PENDING}"

text \<open>
  The trigger of a listed order fires in environment \<open>e\<close>: the order has an id, the lookup of
  its pair price returns, and the rule of its kind holds at that price.
\<close>

definition turnFires :: "env \<Rightarrow> string \<times> order \<Rightarrow> bool" where
  "turnFires e entry =
     (fst entry \<noteq> [] \<and>
      (case getPriceForPair e (inputToken (snd entry)) (outputToken (snd entry)) of
         Inl x \<Rightarrow> False
       | Inr currentPrice \<Rightarrow>
           shouldExecute (orderType (snd entry)) (triggerPrice (snd entry)) currentPrice))"






definition grows ::
  "(string \<times> order_status \<times> order_status \<Rightarrow> bool) \<Rightarrow> engine \<Rightarrow> engine \<Rightarrow> bool" where
  "grows P s s' = (\<exists>ts. transitions s' = transitions s @ ts \<and> list_all P ts)"

subsection \<open>Example states\<close>

definition exampleWallet :: wallet where
  "exampleWallet = \<lparr>connected = True, publicKey = Some ''wallet1'',
      signTransaction = True, signAllTransactions = True\<rparr>"

definition exampleOrder :: "OrderType \<Rightarrow> real \<Rightarrow> order_status \<Rightarrow> order" where
  "exampleOrder ty trigger st =
     \<lparr>inputToken = SOL, outputToken = USDC, inputAmount = Num 1, orderType = ty,
      triggerPrice = Num trigger, walletAddress = ''wallet1'', status = st, createdAt = 0,
      executedAt = None, transactionSignature = None, failureReason = None\<rparr>"

definition exampleEngine :: "(string \<times> order) list \<Rightarrow> (string \<times> order) list \<Rightarrow> engine" where
  "exampleEngine docs listing =
     \<lparr>store = docs, wallet = exampleWallet, orders = listing, isLoading = False,
      checkingOrders = False, executeCalls = [], swapCalls = [], notifications = [],
      transitions = []\<rparr>"

definition exampleEnv :: "real \<Rightarrow> swap_outcome \<Rightarrow> env" where
  "exampleEnv p outcome =
     \<lparr>getPriceForPair = (\<lambda>a b. Inr (Num p)), executeSwap = (\<lambda>n req. outcome),
      dateNow = 1000\<rparr>"

definition exampleDraft :: "OrderType \<Rightarrow> real \<Rightarrow> draft" where
  "exampleDraft ty trigger =
     \<lparr>inputToken = SOL, outputToken = USDC, inputAmount = Num 1, orderType = ty,
      triggerPrice = Num trigger\<rparr>"


text \<open>A stand-in for \<open>parseFloat\<close> on the texts the examples enter in the form.\<close>

definition exampleParseFloat :: "string \<Rightarrow> number" where
  "exampleParseFloat t =
     (if t = ''0'' then Num 0 else if t = ''-5'' then Num (-5)
      else if t = ''160'' then Num 160 else if t = ''1'' then Num 1 else NaN)"

section \<open>Basic facts\<close>

lemmas token_defs = SOL_def USDC_def BONK_def USDT_def mSOL_def JTO_def TOKENS_def

lemmas example_defs = exampleWallet_def exampleOrder_def exampleEngine_def exampleEnv_def
  exampleDraft_def

lemma map_of_setFields:
  "map_of (setFields i f xs) j =
     (if j = i then map_option f (map_of xs j) else map_of xs j)"
  by (induction xs) (auto simp: setFields_def)

lemma map_fst_setFields [simp]: "map fst (setFields i f xs) = map fst xs"
  by (induction xs) (auto simp: setFields_def)

lemma example_ready: "walletReady (exampleEngine docs listing) ''wallet1''"
  by (simp add: walletReady_def exampleEngine_def exampleWallet_def)

lemma example_price: "getPriceForPair (exampleEnv p outcome) a b = Inr (Num p)"
  by (simp add: exampleEnv_def)

subsection \<open>executeOrder\<close>

text \<open>
  With a wallet that passes the guard, the call ends at \<open>getDoc\<close>; without one, at the
  guard. Either way only the log of calls has grown.
\<close>

lemma executeOrder_ready:
  "walletReady s pk \<Longrightarrow>
   executeOrder e i s = (Some referenceError, s\<lparr>executeCalls := executeCalls s @ [i]\<rparr>)"
  by (simp add: executeOrder_def walletReady_def getDoc_def Let_def)

lemma executeOrder_not_ready:
  "\<forall>pk. \<not> walletReady s pk \<Longrightarrow>
   executeOrder e i s = (None, s\<lparr>executeCalls := executeCalls s @ [i]\<rparr>)"
  by (auto simp: executeOrder_def walletReady_def Let_def split: option.splits)

lemma executeOrder_state:
  "snd (executeOrder e i s) = s\<lparr>executeCalls := executeCalls s @ [i]\<rparr>"
proof (cases "\<exists>pk. walletReady s pk")
  case True
  then show ?thesis by (auto simp: executeOrder_ready)
next
  case False
  then show ?thesis by (simp add: executeOrder_not_ready)
qed

subsection \<open>The scan\<close>

lemma checkTrigger_state:
  "checkTrigger e entry s =
     (if turnFires e entry then s\<lparr>executeCalls := executeCalls s @ [fst entry]\<rparr> else s)"
  by (auto simp: checkTrigger_def turnFires_def executeOrder_state split: sum.splits)

lemma scanOrders_state:
  "scanOrders e ps s =
     s\<lparr>executeCalls := executeCalls s @ map fst (filter (turnFires e) ps)\<rparr>"
  by (induction ps arbitrary: s) (simp_all add: checkTrigger_state)

lemma checkOrderTriggers_state:
  "checkOrderTriggers e s =
     (if checkingOrders s then s
      else s\<lparr>checkingOrders := False,
             executeCalls := executeCalls s @ map fst (filter (turnFires e) (pendingOrders s))\<rparr>)"
  by (simp add: checkOrderTriggers_def scanOrders_state)

lemma pendingOrders_fires:
  "filter (turnFires e) (pendingOrders s) =
     filter (\<lambda>entry. status (snd entry) = PENDING \<and> turnFires e entry) (orders s)"
  by (simp add: pendingOrders_def conj_commute)

lemma checkOrderTriggers_executes:
  "newExecutes s (checkOrderTriggers e s) =
     (if checkingOrders s then []
      else map fst (filter (\<lambda>entry. status (snd entry) = PENDING \<and> turnFires e entry)
                      (orders s)))"
  by (simp add: checkOrderTriggers_state newExecutes_def pendingOrders_fires)

subsection \<open>createOrder, cancelOrder, retryOrder\<close>

lemma createOrder_state:
  "publicKey (wallet s) = Some pk \<Longrightarrow>
   getPriceForPair e (inputToken dr) (outputToken dr) = Inr cur \<Longrightarrow>
   createOrder e docId dr s =
     s\<lparr>store := store s @
          [(docId, draft.extend dr (order.fields pk PENDING (dateNow e) None None None))],
       isLoading := False,
       executeCalls := executeCalls s @
          (if shouldExecuteOnCreate (orderType dr) (triggerPrice dr) cur then [docId] else [])\<rparr>"
  by (simp add: createOrder_def Let_def addDoc_def executeOrder_state)

lemma createOrder_keys:
  "publicKey (wallet s) = Some pk \<Longrightarrow>
   map fst (store (createOrder e docId dr s)) = map fst (store s) @ [docId]"
  by (simp add: createOrder_def Let_def addDoc_def executeOrder_state split: sum.splits)



lemma retryOrder_state:
  "retryOrder e i s = (case storedDoc s i of
      None \<Rightarrow> s\<lparr>isLoading := False\<rparr>
    | Some d \<Rightarrow>
        (checkOrderTriggers e
           (s\<lparr>isLoading := True,
              store := setFields i (\<lambda>d. d\<lparr>status := PENDING, failureReason := None\<rparr>) (store s),
              transitions := transitions s @ [(i, status d, PENDING)],
              notifications := notifications s @ [(i, PENDING, None)]\<rparr>))\<lparr>isLoading := False\<rparr>)"
  by (simp add: retryOrder_def updateDoc_def triggerOrderUpdate_def storedDoc_def
      split: option.splits)

subsection \<open>Status writes\<close>



lemma grows_refl [simp]: "grows P s s"
  by (simp add: grows_def)








lemma checkOrderTriggers_executes_listed:
  "set (newExecutes s (checkOrderTriggers e s)) \<subseteq> listedPending s"
  by (auto simp: checkOrderTriggers_executes listedPending_def)

subsection \<open>Evaluation of the examples\<close>

lemmas engine_defs = checkOrderTriggers_def pendingOrders_def checkTrigger_def executeOrder_def
  getDoc_def updateDoc_def storedDoc_def setFields_def triggerOrderUpdate_def syncOrders_def
  addDoc_def createOrder_def cancelOrder_def retryOrder_def newExecutes_def newSwaps_def
  newTransitions_def statusOf_def draft.defs order.defs




section \<open>The trigger decision\<close>

text \<open>
  C2. The trigger decision is a total function of the order kind, the trigger price and the
  current price: a LIMIT and a STOP_LOSS order fire iff the current price is at most the
  trigger price, a TAKE_PROFIT order iff it is at least the trigger price. The decision
  taken after creation is the one of the scan cycle. A scan cycle that is not skipped hands
  to \<open>executeOrder\<close>, in the order of the listing, exactly the listed orders that are PENDING
  and whose trigger fires at the price looked up for them; \<open>createOrder\<close>, with a public
  key and a price lookup that returns, hands the new order to \<open>executeOrder\<close> exactly when
  its trigger fires.
\<close>

theorem trigger_rule:
  "shouldExecute LIMIT (Num t) (Num c) = (c \<le> t) \<and>
   shouldExecute STOP_LOSS (Num t) (Num c) = (c \<le> t) \<and>
   shouldExecute TAKE_PROFIT (Num t) (Num c) = (c \<ge> t) \<and>
   shouldExecuteOnCreate ty trigger cur = shouldExecute ty trigger cur \<and>
   newExecutes s (checkOrderTriggers e s) =
     (if checkingOrders s then []
      else map fst (filter (\<lambda>entry. status (snd entry) = PENDING \<and> turnFires e entry)
                      (orders s))) \<and>
   (publicKey (wallet s) = Some pk \<and>
    getPriceForPair e (inputToken dr) (outputToken dr) = Inr cur \<longrightarrow>
      newExecutes s (createOrder e docId dr s)
        = (if shouldExecute (orderType dr) (triggerPrice dr) cur then [docId] else []))"
proof (intro conjI impI)
  show same: "shouldExecuteOnCreate ty trigger cur = shouldExecute ty trigger cur"
    for ty trigger cur
    by (cases ty) simp_all
  show "newExecutes s (checkOrderTriggers e s) =
     (if checkingOrders s then []
      else map fst (filter (\<lambda>entry. status (snd entry) = PENDING \<and> turnFires e entry)
                      (orders s)))"
    by (rule checkOrderTriggers_executes)
  assume "publicKey (wallet s) = Some pk \<and>
    getPriceForPair e (inputToken dr) (outputToken dr) = Inr cur"
  then show "newExecutes s (createOrder e docId dr s)
        = (if shouldExecute (orderType dr) (triggerPrice dr) cur then [docId] else [])"
    by (simp add: createOrder_state newExecutes_def same)
qed simp_all

theorem trigger_rule_witness:
  "shouldExecute LIMIT (Num 160) (Num 150) \<and>
   \<not> shouldExecute STOP_LOSS (Num 140) (Num 150) \<and>
   shouldExecute TAKE_PROFIT (Num 140) (Num 150) \<and>
   newExecutes
     (exampleEngine [] [(''o1'', exampleOrder LIMIT 160 PENDING),
                        (''o2'', exampleOrder STOP_LOSS 140 PENDING),
                        (''o3'', exampleOrder TAKE_PROFIT 140 PENDING),
                        (''o4'', exampleOrder LIMIT 160 CANCELLED)])
     (checkOrderTriggers (exampleEnv 150 (SwapSuccess ''sig''))
        (exampleEngine [] [(''o1'', exampleOrder LIMIT 160 PENDING),
                           (''o2'', exampleOrder STOP_LOSS 140 PENDING),
                           (''o3'', exampleOrder TAKE_PROFIT 140 PENDING),
                           (''o4'', exampleOrder LIMIT 160 CANCELLED)]))
     = [''o1'', ''o3''] \<and>
   newExecutes (exampleEngine [] [])
     (createOrder (exampleEnv 150 (SwapSuccess ''sig'')) ''o1'' (exampleDraft LIMIT 160)
        (exampleEngine [] [])) = [''o1''] \<and>
   newExecutes (exampleEngine [] [])
     (createOrder (exampleEnv 150 (SwapSuccess ''sig'')) ''o1'' (exampleDraft STOP_LOSS 140)
        (exampleEngine [] [])) = []"
proof -
  let ?listing = "[(''o1'', exampleOrder LIMIT 160 PENDING),
                   (''o2'', exampleOrder STOP_LOSS 140 PENDING),
                   (''o3'', exampleOrder TAKE_PROFIT 140 PENDING),
                   (''o4'', exampleOrder LIMIT 160 CANCELLED)]"
  have pk: "publicKey (wallet (exampleEngine [] [])) = Some ''wallet1''"
    by (simp add: example_defs)
  from trigger_rule [where t = 160 and c = 150 and ty = LIMIT and trigger = "Num 160"
      and cur = "Num 150" and s = "exampleEngine [] ?listing"
      and e = "exampleEnv 150 (SwapSuccess ''sig'')" and pk = "''wallet1''"
      and dr = "exampleDraft LIMIT 160" and docId = "''o1''"]
    trigger_rule [where t = 140 and c = 150 and ty = LIMIT and trigger = "Num 160"
      and cur = "Num 150" and s = "exampleEngine [] []"
      and e = "exampleEnv 150 (SwapSuccess ''sig'')" and pk = "''wallet1''"
      and dr = "exampleDraft LIMIT 160" and docId = "''o1''"]
    trigger_rule [where t = 140 and c = 150 and ty = LIMIT and trigger = "Num 160"
      and cur = "Num 150" and s = "exampleEngine [] []"
      and e = "exampleEnv 150 (SwapSuccess ''sig'')" and pk = "''wallet1''"
      and dr = "exampleDraft STOP_LOSS 140" and docId = "''o1''"]
  show ?thesis
    by (simp add: pk example_price turnFires_def example_defs)
qed

section \<open>executeOrder\<close>

text \<open>
  C4, as the code has it. An execution attempt on a stored order, with a wallet that passes
  the guard, ends with the \<open>ReferenceError\<close> of the unbound \<open>getDoc\<close>, before the write
  of EXECUTING and before the swap executor is called: the document is left as it was, its
  status and its \<open>failureReason\<close> included, also when the attempt is made by a turn of the
  scan or by a scan cycle, which swallow the exception. No failure of the swap executor is
  ever recorded as FAILED.
\<close>

theorem executeOrder_stops_before_settling:
  assumes "walletReady s pk" and "storedDoc s orderId = Some d"
  shows "fst (executeOrder e orderId s) = Some referenceError \<and>
         storedDoc (snd (executeOrder e orderId s)) orderId = Some d \<and>
         storedDoc (checkTrigger e (orderId, ord) s) orderId = Some d \<and>
         storedDoc (checkOrderTriggers e s) orderId = Some d"
  using assms
  by (simp add: executeOrder_ready checkTrigger_state checkOrderTriggers_state storedDoc_def)

theorem executeOrder_stops_before_settling_witness:
  "fst (executeOrder (exampleEnv 150 (SwapFailure ''slippage exceeded'')) ''o1''
       (exampleEngine [(''o1'', exampleOrder LIMIT 160 PENDING)]
                      [(''o1'', exampleOrder LIMIT 160 PENDING)]))
     = Some (Error ''getDoc is not defined'') \<and>
   storedDoc (checkOrderTriggers (exampleEnv 150 (SwapFailure ''slippage exceeded''))
       (exampleEngine [(''o1'', exampleOrder LIMIT 160 PENDING)]
                      [(''o1'', exampleOrder LIMIT 160 PENDING)])) ''o1''
     = Some (exampleOrder LIMIT 160 PENDING) \<and>
   status (exampleOrder LIMIT 160 PENDING) = PENDING \<and>
   failureReason (exampleOrder LIMIT 160 PENDING) = None \<and>
   newExecutes (exampleEngine [(''o1'', exampleOrder LIMIT 160 PENDING)]
                      [(''o1'', exampleOrder LIMIT 160 PENDING)])
     (checkOrderTriggers (exampleEnv 150 (SwapFailure ''slippage exceeded''))
       (exampleEngine [(''o1'', exampleOrder LIMIT 160 PENDING)]
                      [(''o1'', exampleOrder LIMIT 160 PENDING)])) = [''o1'']"
proof -
  let ?s = "exampleEngine [(''o1'', exampleOrder LIMIT 160 PENDING)]
                      [(''o1'', exampleOrder LIMIT 160 PENDING)]"
  have g: "storedDoc ?s ''o1'' = Some (exampleOrder LIMIT 160 PENDING)"
    by (simp add: storedDoc_def exampleEngine_def)
  have x: "newExecutes ?s (checkOrderTriggers (exampleEnv 150 (SwapFailure ''slippage exceeded'')) ?s)
      = [''o1'']"
    by (simp add: engine_defs example_defs)
  from executeOrder_stops_before_settling [OF example_ready g,
      of "exampleEnv 150 (SwapFailure ''slippage exceeded'')"] x
  show ?thesis
    by (simp add: referenceError_def exampleOrder_def)
qed



text \<open>
  C10, as the code has it. With a wallet that passes the guard, for a document of the store
  in whatever status, \<open>executeOrder\<close> writes no status (EXECUTING neither), sends no
  notification and does not call the swap executor: the store is as before.
\<close>

theorem executeOrder_writes_nothing:
  assumes "walletReady s pk" and "storedDoc s orderId = Some d"
  shows "newTransitions s (snd (executeOrder e orderId s)) = [] \<and>
         newSwaps s (snd (executeOrder e orderId s)) = [] \<and>
         notifications (snd (executeOrder e orderId s)) = notifications s \<and>
         store (snd (executeOrder e orderId s)) = store s"
  using assms(1)
  by (simp add: executeOrder_ready newTransitions_def newSwaps_def)

theorem executeOrder_writes_nothing_witness:
  "transitions (snd (executeOrder (exampleEnv 150 (SwapSuccess ''sig'')) ''o1''
     (exampleEngine [(''o1'', exampleOrder LIMIT 160 EXECUTED)] []))) = [] \<and>
   swapCalls (snd (executeOrder (exampleEnv 150 (SwapSuccess ''sig'')) ''o1''
     (exampleEngine [(''o1'', exampleOrder LIMIT 160 EXECUTED)] []))) = [] \<and>
   transitions (snd (executeOrder (exampleEnv 150 (SwapSuccess ''sig'')) ''o1''
     (exampleEngine [(''o1'', exampleOrder LIMIT 160 PENDING)] []))) = [] \<and>
   swapCalls (snd (executeOrder (exampleEnv 150 (SwapSuccess ''sig'')) ''o1''
     (exampleEngine [(''o1'', exampleOrder LIMIT 160 PENDING)] []))) = []"
proof -
  have g: "storedDoc (exampleEngine [(''o1'', exampleOrder LIMIT 160 st)] []) ''o1''
      = Some (exampleOrder LIMIT 160 st)" for st
    by (simp add: storedDoc_def exampleEngine_def)
  from executeOrder_writes_nothing [OF example_ready g [of EXECUTED],
      where e = "exampleEnv 150 (SwapSuccess ''sig'')"]
    executeOrder_writes_nothing [OF example_ready g [of PENDING],
      where e = "exampleEnv 150 (SwapSuccess ''sig'')"]
  show ?thesis
    by (simp add: newTransitions_def newSwaps_def exampleEngine_def)
qed

section \<open>The single-token price cache\<close>

text \<open>
  C8, as the code has it. When the request to the quote provider fails on a lookup that the
  cache cannot answer, \<open>getTokenPrice\<close> returns \<open>generateFallbackPrice(mint)\<close> instead of
  failing the caller. For a mint outside the six listed tokens this value is 1.0 whatever
  the run, so two runs return the same value; for a listed token the value depends on the
  draw of \<open>Math.random()\<close>.
\<close>

theorem getTokenPrice_fallback:
  assumes "\<not> cacheFresh st mint now"
    and "axios_get (providerCalls st) mint = ProviderThrows"
  shows "fst (getTokenPrice axios_get r mint now st) = Some (Num (generateFallbackPrice mint r)) \<and>
         (mint \<notin> set TOKENS \<longrightarrow>
            fst (getTokenPrice axios_get r mint now st) = Some (Num 1) \<and>
            fst (getTokenPrice axios_get r' mint now st) = Some (Num 1))"
  using assms
  by (simp add: getTokenPrice_def generateFallbackPrice_def TOKENS_def)

theorem getTokenPrice_fallback_witness:
  "fst (getTokenPrice (\<lambda>n m. ProviderThrows) (1 / 4) ''unlisted'' 0
          \<lparr>tokenPriceCache = Map.empty, providerCalls = 0\<rparr>) = Some (Num 1) \<and>
   fst (getTokenPrice (\<lambda>n m. ProviderThrows) (3 / 4) ''unlisted'' 0
          \<lparr>tokenPriceCache = Map.empty, providerCalls = 0\<rparr>) = Some (Num 1) \<and>
   ''unlisted'' \<notin> set TOKENS"
proof -
  have stale: "\<not> cacheFresh \<lparr>tokenPriceCache = Map.empty, providerCalls = 0\<rparr> ''unlisted'' 0"
    by (simp add: cacheFresh_def)
  have unlisted: "''unlisted'' \<notin> set TOKENS"
    by (simp add: token_defs)
  have fails: "(\<lambda>n m. ProviderThrows)
      (providerCalls \<lparr>tokenPriceCache = Map.empty, providerCalls = 0\<rparr>) ''unlisted''
      = ProviderThrows"
    by simp
  from getTokenPrice_fallback [OF stale fails, of "1 / 4" "3 / 4"] unlisted
  show ?thesis by blast
qed

text \<open>
  The claim C8 as stated fails: under the same failure of the provider, with the same empty
  cache and the same clock, two runs for SOL whose draws of \<open>Math.random()\<close> are 0 and 1/2
  return 145 and 150.
\<close>

theorem getTokenPrice_fallback_not_deterministic:
  "fst (getTokenPrice (\<lambda>n m. ProviderThrows) 0 SOL 0
          \<lparr>tokenPriceCache = Map.empty, providerCalls = 0\<rparr>) = Some (Num 145) \<and>
   fst (getTokenPrice (\<lambda>n m. ProviderThrows) (1 / 2) SOL 0
          \<lparr>tokenPriceCache = Map.empty, providerCalls = 0\<rparr>) = Some (Num 150)"
  by (simp add: getTokenPrice_def cacheFresh_def generateFallbackPrice_def)

text \<open>
  C9. If a call of \<open>getTokenPrice(mint)\<close> at time \<open>now1\<close> leaves the price \<open>p\<close> cached for
  the mint with that time stamp, it returned \<open>p\<close>, and a second call less than 30 seconds
  later returns \<open>p\<close> again and leaves the state as it was, the count of provider requests
  included. A call for a mint whose cached entry is 30 seconds old or older issues exactly
  one request to the provider.
\<close>

theorem getTokenPrice_ttl:
  "(getTokenPrice axios_get r1 mint now1 st0 = (v1, st1) \<and>
    tokenPriceCache st1 mint = Some \<lparr>price = p, timestamp = now1\<rparr> \<and>
    now2 - now1 < 30000
    \<longrightarrow> v1 = Some p \<and> getTokenPrice axios_get r2 mint now2 st1 = (Some p, st1)) \<and>
   (tokenPriceCache st mint = Some c \<and> 30000 \<le> now - timestamp c
    \<longrightarrow> providerCalls (snd (getTokenPrice axios_get r mint now st)) = providerCalls st + 1)"
proof (intro conjI impI)
  assume h: "getTokenPrice axios_get r1 mint now1 st0 = (v1, st1) \<and>
    tokenPriceCache st1 mint = Some \<lparr>price = p, timestamp = now1\<rparr> \<and> now2 - now1 < 30000"
  then have fresh2: "cacheFresh st1 mint now2"
    by (simp add: cacheFresh_def)
  from h show "v1 = Some p"
    by (auto simp: getTokenPrice_def cacheFresh_def Let_def
        split: if_splits provider_outcome.splits option.splits)
  from h fresh2 show "getTokenPrice axios_get r2 mint now2 st1 = (Some p, st1)"
    by (simp add: getTokenPrice_def)
next
  assume "tokenPriceCache st mint = Some c \<and> 30000 \<le> now - timestamp c"
  then have "\<not> cacheFresh st mint now"
    by (simp add: cacheFresh_def)
  then show "providerCalls (snd (getTokenPrice axios_get r mint now st)) = providerCalls st + 1"
    by (simp add: getTokenPrice_def Let_def split: provider_outcome.splits option.splits)
qed

theorem getTokenPrice_ttl_witness:
  "getTokenPrice (\<lambda>n m. ProviderReturns (Some (Num 150))) 0 SOL 1000
     \<lparr>tokenPriceCache = Map.empty, providerCalls = 0\<rparr>
   = (Some (Num 150),
      \<lparr>tokenPriceCache = [SOL \<mapsto> \<lparr>price = Num 150, timestamp = 1000\<rparr>], providerCalls = 1\<rparr>) \<and>
   getTokenPrice (\<lambda>n m. ProviderReturns (Some (Num 150))) 0 SOL 20000
     \<lparr>tokenPriceCache = [SOL \<mapsto> \<lparr>price = Num 150, timestamp = 1000\<rparr>], providerCalls = 1\<rparr>
   = (Some (Num 150),
      \<lparr>tokenPriceCache = [SOL \<mapsto> \<lparr>price = Num 150, timestamp = 1000\<rparr>], providerCalls = 1\<rparr>) \<and>
   providerCalls (snd (getTokenPrice (\<lambda>n m. ProviderReturns (Some (Num 150))) 0 SOL 31000
     \<lparr>tokenPriceCache = [SOL \<mapsto> \<lparr>price = Num 150, timestamp = 1000\<rparr>], providerCalls = 1\<rparr>)) = 2"
proof -
  have first: "getTokenPrice (\<lambda>n m. ProviderReturns (Some (Num 150))) 0 SOL 1000
     \<lparr>tokenPriceCache = Map.empty, providerCalls = 0\<rparr>
   = (Some (Num 150),
      \<lparr>tokenPriceCache = [SOL \<mapsto> \<lparr>price = Num 150, timestamp = 1000\<rparr>], providerCalls = 1\<rparr>)"
    by (simp add: getTokenPrice_def cacheFresh_def)
  from first getTokenPrice_ttl [where axios_get = "\<lambda>n m. ProviderReturns (Some (Num 150))"
      and ?r1.0 = 0 and mint = SOL and ?now1.0 = 1000
      and ?st0.0 = "\<lparr>tokenPriceCache = Map.empty, providerCalls = 0\<rparr>"
      and ?v1.0 = "Some (Num 150)"
      and ?st1.0 = "\<lparr>tokenPriceCache = [SOL \<mapsto> \<lparr>price = Num 150, timestamp = 1000\<rparr>],
                     providerCalls = 1\<rparr>"
      and p = "Num 150" and ?now2.0 = 20000 and ?r2.0 = 0
      and st = "\<lparr>tokenPriceCache = [SOL \<mapsto> \<lparr>price = Num 150, timestamp = 1000\<rparr>],
                  providerCalls = 1\<rparr>"
      and c = "\<lparr>price = Num 150, timestamp = 1000\<rparr>" and now = 31000 and r = 0]
  show ?thesis
    by simp
qed

section \<open>The scan cycle\<close>




section \<open>retryOrder\<close>

text \<open>
  C6, as the code has it. \<open>retryOrder\<close> sets the order to PENDING and clears
  \<open>failureReason\<close>, and then calls \<open>checkOrderTriggers\<close>; but that scan reads the listing
  of the render in which retry was called, where the retried order is not PENDING. So
  whenever the listing does not show the order as PENDING (it shows a FAILED order as
  FAILED), the retried order is not handed to \<open>executeOrder\<close> in this call, and so not
  passed to the swap executor, whatever the price, and it is left PENDING for the next scan
  of the timer. In the example the limit order with trigger 160 is retried at price 150: the
  call makes no execution attempt, and the scan that follows the next refresh of the listing
  makes one.
\<close>

theorem retryOrder_stale_listing:
  assumes "storedDoc s orderId = Some d" and "orderId \<notin> listedPending s"
  shows "storedDoc (retryOrder e orderId s) orderId
           = Some (d\<lparr>status := PENDING, failureReason := None\<rparr>) \<and>
         orderId \<notin> fst ` set (newSwaps s (retryOrder e orderId s)) \<and>
         orderId \<notin> set (newExecutes s (retryOrder e orderId s))"
proof -
  let ?s1 = "s\<lparr>isLoading := True,
              store := setFields orderId (\<lambda>d. d\<lparr>status := PENDING, failureReason := None\<rparr>) (store s),
              transitions := transitions s @ [(orderId, status d, PENDING)],
              notifications := notifications s @ [(orderId, PENDING, None)]\<rparr>"
  have retry: "retryOrder e orderId s = (checkOrderTriggers e ?s1)\<lparr>isLoading := False\<rparr>"
    using assms(1) by (simp add: retryOrder_state)
  have "listedPending ?s1 = listedPending s"
    by (simp add: listedPending_def)
  with assms(2) checkOrderTriggers_executes_listed [of ?s1 e]
  have "orderId \<notin> set (newExecutes ?s1 (checkOrderTriggers e ?s1))"
    by blast
  moreover have "newExecutes s (retryOrder e orderId s) = newExecutes ?s1 (checkOrderTriggers e ?s1)"
    by (simp add: retry newExecutes_def)
  moreover have "newSwaps s (retryOrder e orderId s) = []"
    by (simp add: retry newSwaps_def checkOrderTriggers_state)
  moreover have "storedDoc (retryOrder e orderId s) orderId
           = Some (d\<lparr>status := PENDING, failureReason := None\<rparr>)"
    using assms(1)
    by (simp add: retry checkOrderTriggers_state storedDoc_def map_of_setFields)
  ultimately show ?thesis by simp
qed

theorem retryOrder_stale_listing_witness:
  "storedDoc (retryOrder (exampleEnv 150 (SwapSuccess ''sig'')) ''o1''
      (exampleEngine
         [(''o1'', (exampleOrder LIMIT 160 FAILED)\<lparr>failureReason := Some ''slippage exceeded''\<rparr>)]
         [(''o1'', (exampleOrder LIMIT 160 FAILED)\<lparr>failureReason := Some ''slippage exceeded''\<rparr>)]))
      ''o1'' = Some (exampleOrder LIMIT 160 PENDING) \<and>
   executeCalls (retryOrder (exampleEnv 150 (SwapSuccess ''sig'')) ''o1''
      (exampleEngine
         [(''o1'', (exampleOrder LIMIT 160 FAILED)\<lparr>failureReason := Some ''slippage exceeded''\<rparr>)]
         [(''o1'', (exampleOrder LIMIT 160 FAILED)\<lparr>failureReason := Some ''slippage exceeded''\<rparr>)]))
      = [] \<and>
   swapCalls (retryOrder (exampleEnv 150 (SwapSuccess ''sig'')) ''o1''
      (exampleEngine
         [(''o1'', (exampleOrder LIMIT 160 FAILED)\<lparr>failureReason := Some ''slippage exceeded''\<rparr>)]
         [(''o1'', (exampleOrder LIMIT 160 FAILED)\<lparr>failureReason := Some ''slippage exceeded''\<rparr>)]))
      = [] \<and>
   shouldExecute LIMIT (Num 160) (Num 150) \<and>
   executeCalls (run
      [(exampleEnv 150 (SwapSuccess ''sig''), Retry ''o1''),
       (exampleEnv 150 (SwapSuccess ''sig''), Sync),
       (exampleEnv 150 (SwapSuccess ''sig''), Scan)]
      (exampleEngine
         [(''o1'', (exampleOrder LIMIT 160 FAILED)\<lparr>failureReason := Some ''slippage exceeded''\<rparr>)]
         [(''o1'', (exampleOrder LIMIT 160 FAILED)\<lparr>failureReason := Some ''slippage exceeded''\<rparr>)]))
      = [''o1'']"
proof -
  let ?d = "(exampleOrder LIMIT 160 FAILED)\<lparr>failureReason := Some ''slippage exceeded''\<rparr>"
  let ?s = "exampleEngine [(''o1'', ?d)] [(''o1'', ?d)]"
  have g: "storedDoc ?s ''o1'' = Some ?d"
    by (simp add: storedDoc_def exampleEngine_def)
  have l: "''o1'' \<notin> listedPending ?s"
    by (simp add: listedPending_def example_defs)
  have d: "?d\<lparr>status := PENDING, failureReason := None\<rparr> = exampleOrder LIMIT 160 PENDING"
    by (simp add: exampleOrder_def)
  have sw: "swapCalls (retryOrder (exampleEnv 150 (SwapSuccess ''sig'')) ''o1'' ?s) = []"
    "executeCalls (retryOrder (exampleEnv 150 (SwapSuccess ''sig'')) ''o1'' ?s) = []"
    by (simp_all add: engine_defs example_defs)
  have later: "executeCalls (run
      [(exampleEnv 150 (SwapSuccess ''sig''), Retry ''o1''),
       (exampleEnv 150 (SwapSuccess ''sig''), Sync),
       (exampleEnv 150 (SwapSuccess ''sig''), Scan)] ?s) = [''o1'']"
    by (simp add: engine_defs example_defs)
  from retryOrder_stale_listing [OF g l, of "exampleEnv 150 (SwapSuccess ''sig'')"] sw later
  show ?thesis
    by (simp add: d)
qed

section \<open>createOrder and the order form\<close>

text \<open>
  C5, as the code has it. The validation is that of the order form: \<open>handleSubmit\<close> does
  not call \<open>createOrder\<close> when the amount or the trigger price is empty or parses to a
  number that is at most 0, so nothing is stored and the swap executor is not called.
  \<open>createOrder\<close> itself checks only the public key: with one, it stores a document for
  whatever draft it is given.
\<close>

theorem handleSubmit_validates:
  "(formInputAmount form = [] \<or> js_le (parseFloat (formInputAmount form)) (Num 0) \<or>
    formTriggerPrice form = [] \<or> js_le (parseFloat (formTriggerPrice form)) (Num 0)
    \<longrightarrow> handleSubmit parseFloat e docId form s = s) \<and>
   (publicKey (wallet s) = Some pk
    \<longrightarrow> map fst (store (createOrder e docId dr s)) = map fst (store s) @ [docId])"
proof (intro conjI impI)
  assume "formInputAmount form = [] \<or> js_le (parseFloat (formInputAmount form)) (Num 0) \<or>
    formTriggerPrice form = [] \<or> js_le (parseFloat (formTriggerPrice form)) (Num 0)"
  then show "handleSubmit parseFloat e docId form s = s"
    by (auto simp: handleSubmit_def)
next
  assume "publicKey (wallet s) = Some pk"
  then show "map fst (store (createOrder e docId dr s)) = map fst (store s) @ [docId]"
    by (rule createOrder_keys)
qed

theorem handleSubmit_validates_witness:
  "handleSubmit exampleParseFloat (exampleEnv 150 (SwapSuccess ''sig'')) ''o1''
     \<lparr>formInputToken = SOL, formOutputToken = USDC, formInputAmount = ''0'',
      formOrderType = LIMIT, formTriggerPrice = ''160''\<rparr> (exampleEngine [] [])
     = exampleEngine [] [] \<and>
   handleSubmit exampleParseFloat (exampleEnv 150 (SwapSuccess ''sig'')) ''o1''
     \<lparr>formInputToken = SOL, formOutputToken = USDC, formInputAmount = ''1'',
      formOrderType = LIMIT, formTriggerPrice = ''-5''\<rparr> (exampleEngine [] [])
     = exampleEngine [] [] \<and>
   handleSubmit exampleParseFloat (exampleEnv 150 (SwapSuccess ''sig'')) ''o1''
     \<lparr>formInputToken = SOL, formOutputToken = USDC, formInputAmount = ''1'',
      formOrderType = LIMIT, formTriggerPrice = ''''\<rparr> (exampleEngine [] [])
     = exampleEngine [] [] \<and>
   map fst (store (handleSubmit exampleParseFloat (exampleEnv 150 (SwapSuccess ''sig'')) ''o1''
     \<lparr>formInputToken = SOL, formOutputToken = USDC, formInputAmount = ''1'',
      formOrderType = LIMIT, formTriggerPrice = ''160''\<rparr> (exampleEngine [] []))) = [''o1'']"
proof -
  have last: "map fst (store (handleSubmit exampleParseFloat (exampleEnv 150 (SwapSuccess ''sig'')) ''o1''
     \<lparr>formInputToken = SOL, formOutputToken = USDC, formInputAmount = ''1'',
      formOrderType = LIMIT, formTriggerPrice = ''160''\<rparr> (exampleEngine [] []))) = [''o1'']"
    by (simp add: handleSubmit_def exampleParseFloat_def engine_defs example_defs)
  from last
    handleSubmit_validates [where parseFloat = exampleParseFloat
      and form = "\<lparr>formInputToken = SOL, formOutputToken = USDC, formInputAmount = ''0'',
        formOrderType = LIMIT, formTriggerPrice = ''160''\<rparr>"
      and e = "exampleEnv 150 (SwapSuccess ''sig'')" and docId = "''o1''"
      and s = "exampleEngine [] []"]
    handleSubmit_validates [where parseFloat = exampleParseFloat
      and form = "\<lparr>formInputToken = SOL, formOutputToken = USDC, formInputAmount = ''1'',
        formOrderType = LIMIT, formTriggerPrice = ''-5''\<rparr>"
      and e = "exampleEnv 150 (SwapSuccess ''sig'')" and docId = "''o1''"
      and s = "exampleEngine [] []"]
    handleSubmit_validates [where parseFloat = exampleParseFloat
      and form = "\<lparr>formInputToken = SOL, formOutputToken = USDC, formInputAmount = ''1'',
        formOrderType = LIMIT, formTriggerPrice = ''''\<rparr>"
      and e = "exampleEnv 150 (SwapSuccess ''sig'')" and docId = "''o1''"
      and s = "exampleEngine [] []"]
  show ?thesis
    by (simp add: exampleParseFloat_def)
qed

text \<open>
  The claim C5 as stated fails: for a draft with amount 0 and trigger price 0,
  \<open>createOrder\<close> stores a document and, the take-profit trigger 0 being reached at price
  150, hands it to \<open>executeOrder\<close>.
\<close>

theorem createOrder_does_not_validate:
  "js_le (Num 0) (Num 0) \<and>
   map fst (store (createOrder (exampleEnv 150 (SwapSuccess ''sig'')) ''o1''
      \<lparr>inputToken = SOL, outputToken = USDC, inputAmount = Num 0, orderType = TAKE_PROFIT,
       triggerPrice = Num 0\<rparr> (exampleEngine [] []))) = [''o1''] \<and>
   executeCalls (createOrder (exampleEnv 150 (SwapSuccess ''sig'')) ''o1''
      \<lparr>inputToken = SOL, outputToken = USDC, inputAmount = Num 0, orderType = TAKE_PROFIT,
       triggerPrice = Num 0\<rparr> (exampleEngine [] [])) = [''o1'']"
  by (simp add: engine_defs example_defs)

section \<open>The status graph\<close>




end
